theory Spec2Isabelle
  imports Complex_Main
begin

section \<open>The configuration (types.ts)\<close>

text \<open>
  The interface \<open>SplitOptions\<close>. The two string unions are datatypes. A JavaScript
  \<open>number\<close> that holds a length or a ratio is a real (exact arithmetic; the rounding
  of IEEE doubles is outside this model), the starting page number is an integer, and
  \<open>numberingStartFromPageIndex\<close>, documented as 0-indexed and clamped at 0 by its
  only setter in App.tsx, is a natural number. The optional field
  \<open>evenSplitRatio\<close> is an option.
\<close>

datatype orientation = Auto | Vertical | Horizontal

datatype numberingSide = Both | First | Second

record SplitOptions =
  orientation :: orientation
  splitRatio :: real
  evenSplitRatio :: "real option"
  useDualRatios :: bool
  mergeToSingleFile :: bool
  enablePageNumbering :: bool
  startingPageNumber :: int
  numberingStartFromPageIndex :: nat
  numberingSide :: numberingSide

section \<open>The PDF objects the splitter touches\<close>

text \<open>
  A source page is known to the splitter through \<open>getSize()\<close> only. A page of the
  output document records the source page it was copied from, if any, its size (the
  media box that \<open>copyPages\<close> carries over and \<open>getSize\<close> reads back), the crop box set by
  \<open>setCropBox\<close> as (x, y, width, height), and the texts drawn on it, in drawing order.
  \<open>drawText\<close> places text in the coordinates of the page, whose origin is the
  lower left corner of the uncropped page; the crop box restricts what is visible and
  moves nothing.
\<close>

record SourcePage =
  sp_width :: real
  sp_height :: real

type_synonym box = "real \<times> real \<times> real \<times> real"

record DrawnText =
  dt_text :: string
  dt_x :: real
  dt_y :: real
  dt_size :: real
  dt_color :: "real \<times> real \<times> real"

record OutPage =
  op_copiedFrom :: "nat option"
  op_width :: real
  op_height :: real
  op_cropBox :: "box option"
  op_drawn :: "DrawnText list"

text \<open>An embedded font is its \<open>widthOfTextAtSize\<close>.\<close>

type_synonym PDFFont = "string \<Rightarrow> real \<Rightarrow> real"

definition copyPage :: "SourcePage list \<Rightarrow> nat \<Rightarrow> OutPage" where
  "copyPage pages i =
     \<lparr>op_copiedFrom = Some i, op_width = sp_width (pages ! i), op_height = sp_height (pages ! i),
      op_cropBox = None, op_drawn = []\<rparr>"

definition setCropBox :: "real \<Rightarrow> real \<Rightarrow> real \<Rightarrow> real \<Rightarrow> OutPage \<Rightarrow> OutPage" where
  "setCropBox x y w h pg = pg\<lparr>op_cropBox := Some (x, y, w, h)\<rparr>"

definition getSize :: "OutPage \<Rightarrow> real \<times> real" where
  "getSize pg = (op_width pg, op_height pg)"

definition drawText :: "string \<Rightarrow> real \<Rightarrow> real \<Rightarrow> real \<Rightarrow> real \<times> real \<times> real \<Rightarrow> OutPage \<Rightarrow> OutPage" where
  "drawText t x y sz col pg =
     pg\<lparr>op_drawn := op_drawn pg @ [\<lparr>dt_text = t, dt_x = x, dt_y = y, dt_size = sz, dt_color = col\<rparr>]\<rparr>"

text \<open>
  \<open>save()\<close> serialises the document. With its default options it first adds a page
  to a document that has none: a blank page of the library's default size, A4 in
  portrait, 595.28 by 841.89 points. The saved document is modelled by its pages.
\<close>

definition blankPage :: OutPage where
  "blankPage =
     \<lparr>op_copiedFrom = None, op_width = 59528 / 100, op_height = 84189 / 100,
      op_cropBox = None, op_drawn = []\<rparr>"

definition save :: "OutPage list \<Rightarrow> OutPage list" where
  "save doc = (if length doc = 0 then doc @ [blankPage] else doc)"

section \<open>Numbers as text\<close>

text \<open>The template literal of an integer: its decimal digits, with a sign when negative.\<close>

fun natToString :: "nat \<Rightarrow> string" where
  "natToString n =
     (if n < 10 then [''0123456789'' ! n]
      else natToString (n div 10) @ [''0123456789'' ! (n mod 10)])"

declare natToString.simps [simp del]

definition numberToString :: "int \<Rightarrow> string" where
  "numberToString n = (if n < 0 then CHR ''-'' # natToString (nat (- n)) else natToString (nat n))"

section \<open>The splitter (splitA3ToA4)\<close>

text \<open>
  The two awaited calls that can reject before the loop are the two errors. The
  variables that the loop changes are the state: the running counter, the pages added to
  the output document, and the arguments the progress callback has received so far.
  The counter is an unbounded integer: \<open>pageNumberCounter++\<close> adds one.
\<close>

datatype error = LoadFailed | EmbedFontFailed

record LoopState =
  pageNumberCounter :: int
  outPdf :: "OutPage list"
  progressLog :: "real list"

definition fontSize :: real where
  "fontSize = 10"

definition isEvenPage :: "nat \<Rightarrow> bool" where
  "isEvenPage i = (i mod 2 = 1)"

definition currentRatio :: "SplitOptions \<Rightarrow> nat \<Rightarrow> real" where
  "currentRatio options i =
     (if useDualRatios options \<and> isEvenPage i \<and> evenSplitRatio options \<noteq> None
      then the (evenSplitRatio options)
      else splitRatio options)"

definition useVerticalSplit :: "SplitOptions \<Rightarrow> real \<Rightarrow> real \<Rightarrow> bool" where
  "useVerticalSplit options width height =
     (if orientation options = Auto then width > height
      else orientation options = Vertical)"

definition cropHalves :: "bool \<Rightarrow> real \<Rightarrow> real \<Rightarrow> real \<Rightarrow> OutPage \<Rightarrow> OutPage \<Rightarrow> OutPage \<times> OutPage" where
  "cropHalves vert width height ratio page1 page2 =
     (if vert then
        (let splitPos = width * ratio
         in (setCropBox 0 0 splitPos height page1,
             setCropBox splitPos 0 (width - splitPos) height page2))
      else
        (let splitPos = height * (1 - ratio)
         in (setCropBox 0 splitPos width (height - splitPos) page1,
             setCropBox 0 0 width splitPos page2)))"

definition shouldAddNumberToThisA3Page :: "SplitOptions \<Rightarrow> nat \<Rightarrow> bool" where
  "shouldAddNumberToThisA3Page options i =
     (enablePageNumbering options \<and> i \<ge> numberingStartFromPageIndex options)"

text \<open>
  One stamp: the text is the counter's value, its left edge is half the page width
  minus half the text width, its baseline is at 15.
\<close>

definition stampNumber :: "PDFFont \<Rightarrow> int \<Rightarrow> OutPage \<Rightarrow> OutPage" where
  "stampNumber font n pg =
     (let pSize = getSize pg;
          txt = numberToString n;
          textWidth = font txt fontSize
      in drawText txt (fst pSize / 2 - textWidth / 2) 15 fontSize (0.2, 0.2, 0.2) pg)"

text \<open>
  The body of the \<open>for\<close> loop at index \<open>i\<close>. The counter is read and then incremented
  at each stamp (\<open>pageNumberCounter++\<close>), the first copy before the second; the two
  copies are appended and the progress callback is called, here logged.
\<close>

definition loopBody :: "PDFFont \<Rightarrow> SplitOptions \<Rightarrow> SourcePage list \<Rightarrow> LoopState \<Rightarrow> nat \<Rightarrow> LoopState" where
  "loopBody font options pages st i =
     (let totalPages = length pages;
          page = pages ! i;
          width = sp_width page;
          height = sp_height page;
          ratio = currentRatio options i;
          vert = useVerticalSplit options width height;
          (page1, page2) = cropHalves vert width height ratio (copyPage pages i) (copyPage pages i);
          c0 = pageNumberCounter st;
          firstSide = (numberingSide options = Both \<or> numberingSide options = First);
          secondSide = (numberingSide options = Both \<or> numberingSide options = Second);
          (page1, c1) =
             (if shouldAddNumberToThisA3Page options i \<and> firstSide
              then (stampNumber font c0 page1, c0 + 1) else (page1, c0));
          (page2, c2) =
             (if shouldAddNumberToThisA3Page options i \<and> secondSide
              then (stampNumber font c1 page2, c1 + 1) else (page2, c1))
      in \<lparr>pageNumberCounter = c2,
          outPdf = outPdf st @ [page1, page2],
          progressLog = progressLog st @ [(real (i + 1) / real totalPages) * 100]\<rparr>)"

definition initialState :: "SplitOptions \<Rightarrow> LoopState" where
  "initialState options =
     \<lparr>pageNumberCounter = startingPageNumber options, outPdf = [], progressLog = []\<rparr>"

text \<open>
  The \<open>for\<close> loop runs the body at \<open>i = 0, 1, ...\<close> below \<open>totalPages\<close>, a bound fixed
  before it starts; this is the state after its first \<open>k\<close> iterations.
\<close>

definition loopState :: "PDFFont \<Rightarrow> SplitOptions \<Rightarrow> SourcePage list \<Rightarrow> nat \<Rightarrow> LoopState" where
  "loopState font options pages k =
     foldl (loopBody font options pages) (initialState options) [0..<k]"

text \<open>
  The whole function. \<open>load\<close> stands for \<open>PDFDocument.load\<close> on the bytes of the file
  and \<open>embedFont\<close> for the result of embedding Helvetica; either may fail, and the
  failure leaves the function before the loop. The result pairs the values passed to
  \<open>onProgress\<close>, in call order, with the error or the pages of the saved document.
\<close>

definition splitA3ToA4 ::
  "('f \<Rightarrow> SourcePage list option) \<Rightarrow> PDFFont option \<Rightarrow> 'f \<Rightarrow> SplitOptions
     \<Rightarrow> real list \<times> (error + OutPage list)" where
  "splitA3ToA4 load embedFont pdfFile options =
     (case load pdfFile of
        None \<Rightarrow> ([], Inl LoadFailed)
      | Some pages \<Rightarrow>
          (case embedFont of
             None \<Rightarrow> ([], Inl EmbedFontFailed)
           | Some font \<Rightarrow>
               (let st = loopState font options pages (length pages)
                in (progressLog st, Inr (save (outPdf st))))))"

section \<open>The preview computation (App.tsx)\<close>

text \<open>
  The state variables of the component that the preview reads. \<open>currentPage\<close> is the
  one-based number of the page on display, \<open>previewInfo\<close> the size of that page once
  it has been rendered. Where a state variable has the name of a field of
  \<open>SplitOptions\<close>, the name carries the suffix \<open>_state\<close>.
\<close>

record AppState =
  splitMode :: orientation
  splitRatio_state :: real
  evenSplitRatio_state :: real
  useDualRatios_state :: bool
  enablePageNumbering_state :: bool
  startingPageNumber_state :: int
  numberingStartFromPageIndex_state :: nat
  numberingSide_state :: numberingSide
  previewInfo :: "(real \<times> real) option"
  currentPage :: int

text \<open>The options object that \<open>handleProcess\<close> passes to the splitter.\<close>

definition handleProcessOptions :: "AppState \<Rightarrow> SplitOptions" where
  "handleProcessOptions st =
     \<lparr>orientation = splitMode st,
      splitRatio = splitRatio_state st,
      evenSplitRatio = Some (evenSplitRatio_state st),
      useDualRatios = useDualRatios_state st,
      mergeToSingleFile = True,
      enablePageNumbering = enablePageNumbering_state st,
      startingPageNumber = startingPageNumber_state st,
      numberingStartFromPageIndex = numberingStartFromPageIndex_state st,
      numberingSide = numberingSide_state st\<rparr>"

definition isVerticalSplit :: "AppState \<Rightarrow> bool" where
  "isVerticalSplit st =
     (if splitMode st = Auto
      then (case previewInfo st of Some (width, height) \<Rightarrow> width > height | None \<Rightarrow> True)
      else splitMode st = Vertical)"

definition isCurrentPageEven :: "AppState \<Rightarrow> bool" where
  "isCurrentPageEven st = (currentPage st mod 2 = 0)"

definition currentActiveRatio :: "AppState \<Rightarrow> real" where
  "currentActiveRatio st =
     (if useDualRatios_state st \<and> isCurrentPageEven st
      then evenSplitRatio_state st else splitRatio_state st)"

definition getSimulatedPageNumbers :: "AppState \<Rightarrow> int option \<times> int option" where
  "getSimulatedPageNumbers st =
     (if \<not> enablePageNumbering_state st \<or>
         currentPage st - 1 < int (numberingStartFromPageIndex_state st)
      then (None, None)
      else
        (let count = startingPageNumber_state st;
             partsPerA3 = (if numberingSide_state st = Both then 2 else 1);
             skippedA3Pages = int (numberingStartFromPageIndex_state st);
             currentA3PageIndex = currentPage st - 1;
             previousNumberedA3Pages = max 0 (currentA3PageIndex - skippedA3Pages);
             count = count + previousNumberedA3Pages * partsPerA3;
             p1 = (if numberingSide_state st = Both \<or> numberingSide_state st = First
                   then Some count else None);
             p2 = (if numberingSide_state st = Both then Some (count + 1)
                   else if numberingSide_state st = Second then Some count else None)
         in (p1, p2)))"

section \<open>Vocabulary for the loop invariants\<close>

text \<open>
  The rest of the definitions name what the loop body computes, so that its effect can be
  stated as an equation: which halves are stamped, the two crop rectangles, the stamp as
  a value, a finished half, and the value of the counter before page \<open>k\<close>.
\<close>

definition stampsFirst :: "SplitOptions \<Rightarrow> nat \<Rightarrow> bool" where
  "stampsFirst options i = (shouldAddNumberToThisA3Page options i \<and> (numberingSide options = Both \<or> numberingSide options = First))"

definition stampsSecond :: "SplitOptions \<Rightarrow> nat \<Rightarrow> bool" where
  "stampsSecond options i = (shouldAddNumberToThisA3Page options i \<and> (numberingSide options = Both \<or> numberingSide options = Second))"

definition cropRects :: "bool \<Rightarrow> real \<Rightarrow> real \<Rightarrow> real \<Rightarrow> box \<times> box" where
  "cropRects vert w h r = (if vert then ((0, 0, w * r, h), (w * r, 0, w - w * r, h))
     else ((0, h * (1 - r), w, h - h * (1 - r)), (0, 0, w, h * (1 - r))))"

definition stampOf :: "PDFFont \<Rightarrow> real \<Rightarrow> int \<Rightarrow> DrawnText" where
  "stampOf font w n = \<lparr>dt_text = numberToString n, dt_x = w / 2 - font (numberToString n) 10 / 2,
      dt_y = 15, dt_size = 10, dt_color = (0.2, 0.2, 0.2)\<rparr>"

definition halfPage :: "PDFFont \<Rightarrow> SourcePage list \<Rightarrow> nat \<Rightarrow> box \<Rightarrow> bool \<Rightarrow> int \<Rightarrow> OutPage" where
  "halfPage font pages i b stamped n =
     \<lparr>op_copiedFrom = Some i, op_width = sp_width (pages ! i), op_height = sp_height (pages ! i),
      op_cropBox = Some b,
      op_drawn = (if stamped then [stampOf font (sp_width (pages ! i)) n] else [])\<rparr>"

definition partsPerPage :: "SplitOptions \<Rightarrow> int" where
  "partsPerPage options = (if numberingSide options = Both then 2 else 1)"

definition counterBefore :: "SplitOptions \<Rightarrow> nat \<Rightarrow> int" where
  "counterBefore options k =
     startingPageNumber options +
       (if enablePageNumbering options
        then int (k - numberingStartFromPageIndex options) * partsPerPage options else 0)"

definition rectsOf :: "SplitOptions \<Rightarrow> SourcePage list \<Rightarrow> nat \<Rightarrow> box \<times> box" where
  "rectsOf options pages i =
     cropRects (useVerticalSplit options (sp_width (pages ! i)) (sp_height (pages ! i)))
       (sp_width (pages ! i)) (sp_height (pages ! i)) (currentRatio options i)"

definition firstOut :: "PDFFont \<Rightarrow> SplitOptions \<Rightarrow> SourcePage list \<Rightarrow> nat \<Rightarrow> OutPage" where
  "firstOut font options pages i =
     halfPage font pages i (fst (rectsOf options pages i)) (stampsFirst options i) (counterBefore options i)"

definition secondOut :: "PDFFont \<Rightarrow> SplitOptions \<Rightarrow> SourcePage list \<Rightarrow> nat \<Rightarrow> OutPage" where
  "secondOut font options pages i =
     halfPage font pages i (snd (rectsOf options pages i)) (stampsSecond options i)
       (if stampsFirst options i then counterBefore options i + 1 else counterBefore options i)"

section \<open>Notions the claims speak of\<close>

text \<open>
  The visible region of a crop box \<open>(x, y, width, height)\<close>: the points from its lower
  left corner up to, and without, its right and upper edges, so that two boxes that
  share an edge share no point.
\<close>

definition region :: "box \<Rightarrow> (real \<times> real) set" where
  "region b = (case b of (x, y, w, h) \<Rightarrow> {(a, c). x \<le> a \<and> a < x + w \<and> y \<le> c \<and> c < y + h})"

text \<open>The texts stamped on the pages of a document, in page order.\<close>

definition stampedTexts :: "OutPage list \<Rightarrow> string list" where
  "stampedTexts out = concat (map (\<lambda>pg. map dt_text (op_drawn pg)) out)"

text \<open>What a predicted label looks like once stamped: no text, or the number's text.\<close>

definition labelTexts :: "int option \<Rightarrow> string list" where
  "labelTexts p = (case p of None \<Rightarrow> [] | Some n \<Rightarrow> [numberToString n])"

text \<open>
  Where a stamp and a crop box are centred horizontally: the middle of the drawn text,
  from its left edge and its width in the font, and the middle of the box.
\<close>

definition textCentreX :: "PDFFont \<Rightarrow> DrawnText \<Rightarrow> real" where
  "textCentreX font t = dt_x t + font (dt_text t) (dt_size t) / 2"

definition boxCentreX :: "box \<Rightarrow> real" where
  "boxCentreX b = (case b of (x, y, w, h) \<Rightarrow> x + w / 2)"

text \<open>The pages of a result, none when the function failed.\<close>

definition pagesOf :: "real list \<times> (error + OutPage list) \<Rightarrow> OutPage list" where
  "pagesOf res = (case snd res of Inl e \<Rightarrow> [] | Inr out \<Rightarrow> out)"

section \<open>Sample inputs\<close>

text \<open>
  A font whose glyphs are all 556/1000 em wide, as the digits of Helvetica are; a loader
  that rejects the empty byte sequence and otherwise reads one landscape page of
  1000 by 700 points per byte; a loader that reads a document without pages; a
  configuration; and a state of the component that yields this configuration while it
  shows the second page.
\<close>

definition helvetica :: PDFFont where
  "helvetica txt sz = real (length txt) * 556 / 1000 * sz"

definition sampleLoad :: "nat list \<Rightarrow> SourcePage list option" where
  "sampleLoad bytes =
     (if bytes = [] then None
      else Some (map (\<lambda>b. \<lparr>sp_width = 1000, sp_height = 700\<rparr>) bytes))"

definition sampleLoadNoPages :: "nat list \<Rightarrow> SourcePage list option" where
  "sampleLoadNoPages bytes = Some []"

definition sampleOptions :: SplitOptions where
  "sampleOptions =
     \<lparr>orientation = Auto, splitRatio = 1 / 2, evenSplitRatio = Some (3 / 10),
      useDualRatios = True, mergeToSingleFile = True, enablePageNumbering = True,
      startingPageNumber = 5, numberingStartFromPageIndex = 0, numberingSide = Both\<rparr>"

definition sampleState :: AppState where
  "sampleState =
     \<lparr>splitMode = Auto, splitRatio_state = 1 / 2, evenSplitRatio_state = 3 / 10,
      useDualRatios_state = True, enablePageNumbering_state = True,
      startingPageNumber_state = 5, numberingStartFromPageIndex_state = 0,
      numberingSide_state = Both, previewInfo = Some (1000, 700), currentPage = 2\<rparr>"

section \<open>The loop, iteration by iteration\<close>

text \<open>The body of the loop as one equation.\<close>

lemma loopBody_eq:
  "loopBody font options pages st i =
     (let w = sp_width (pages ! i); h = sp_height (pages ! i);
          rs = cropRects (useVerticalSplit options w h) w h (currentRatio options i);
          c0 = pageNumberCounter st;
          c1 = (if stampsFirst options i then c0 + 1 else c0);
          c2 = (if stampsSecond options i then c1 + 1 else c1)
      in \<lparr>pageNumberCounter = c2,
          outPdf = outPdf st @ [halfPage font pages i (fst rs) (stampsFirst options i) c0,
                               halfPage font pages i (snd rs) (stampsSecond options i) c1],
          progressLog = progressLog st @ [(real (i + 1) / real (length pages)) * 100]\<rparr>)"
  by (simp add: loopBody_def Let_def cropHalves_def cropRects_def stampsFirst_def stampsSecond_def
      halfPage_def stampOf_def stampNumber_def drawText_def getSize_def setCropBox_def copyPage_def fontSize_def)

lemma loopState_0: "loopState font options pages 0 = initialState options"
  by (simp add: loopState_def)

lemma loopState_Suc:
  "loopState font options pages (Suc k) = loopBody font options pages (loopState font options pages k) k"
  by (simp add: loopState_def)

lemma counterBefore_Suc:
  "counterBefore options (Suc k) =
     (let c1 = (if stampsFirst options k then counterBefore options k + 1 else counterBefore options k)
      in if stampsSecond options k then c1 + 1 else c1)"
  by (cases "numberingSide options")
     (auto simp: counterBefore_def partsPerPage_def stampsFirst_def stampsSecond_def
        shouldAddNumberToThisA3Page_def Let_def Suc_diff_le algebra_simps)

lemma counter_loopState:
  "pageNumberCounter (loopState font options pages k) = counterBefore options k"
proof (induction k)
  case 0
  show ?case by (simp add: loopState_0 initialState_def counterBefore_def)
next
  case (Suc k)
  show ?case
    by (simp add: loopState_Suc loopBody_eq Let_def Suc counterBefore_Suc)
qed

lemma outPdf_loopState_Suc:
  "outPdf (loopState font options pages (Suc k)) =
     outPdf (loopState font options pages k) @ [firstOut font options pages k, secondOut font options pages k]"
  by (simp add: loopState_Suc loopBody_eq Let_def counter_loopState firstOut_def secondOut_def rectsOf_def)

lemma length_outPdf_loopState:
  "length (outPdf (loopState font options pages k)) = 2 * k"
  by (induction k) (simp_all add: loopState_0 initialState_def outPdf_loopState_Suc)

lemma outPdf_nth:
  "i < k \<Longrightarrow>
     outPdf (loopState font options pages k) ! (2 * i) = firstOut font options pages i \<and>
     outPdf (loopState font options pages k) ! (2 * i + 1) = secondOut font options pages i"
proof (induction k)
  case 0
  then show ?case by simp
next
  case (Suc k)
  show ?case
  proof (cases "i < k")
    case True
    with Suc.IH show ?thesis
      by (simp add: outPdf_loopState_Suc nth_append length_outPdf_loopState)
  next
    case False
    with Suc.prems have "i = k" by simp
    then show ?thesis
      by (simp add: outPdf_loopState_Suc nth_append length_outPdf_loopState)
  qed
qed

lemma progressLog_loopState:
  "progressLog (loopState font options pages k) =
     map (\<lambda>i. real (i + 1) / real (length pages) * 100) [0..<k]"
  by (induction k) (simp_all add: loopState_0 initialState_def loopState_Suc loopBody_eq Let_def)

lemma split_result:
  "load pdfFile = Some pages \<Longrightarrow> embedFont = Some font \<Longrightarrow>
     splitA3ToA4 load embedFont pdfFile options =
       (progressLog (loopState font options pages (length pages)),
        Inr (save (outPdf (loopState font options pages (length pages)))))"
  by (simp add: splitA3ToA4_def Let_def)

text \<open>Saving changes nothing unless the source has no page.\<close>

lemma save_loopState:
  "pages \<noteq> [] \<Longrightarrow>
     save (outPdf (loopState font options pages (length pages))) =
       outPdf (loopState font options pages (length pages))"
  by (simp add: save_def length_outPdf_loopState)

lemma save_loopState_empty:
  "save (outPdf (loopState font options [] 0)) = [blankPage]"
  by (simp add: save_def loopState_0 initialState_def)

lemma firstOut_simps:
  "op_copiedFrom (firstOut font options pages i) = Some i"
  "op_cropBox (firstOut font options pages i) = Some (fst (rectsOf options pages i))"
  "op_width (firstOut font options pages i) = sp_width (pages ! i)"
  "op_height (firstOut font options pages i) = sp_height (pages ! i)"
  "op_drawn (firstOut font options pages i) =
     (if stampsFirst options i then [stampOf font (sp_width (pages ! i)) (counterBefore options i)] else [])"
  by (simp_all add: firstOut_def halfPage_def)

lemma secondOut_simps:
  "op_copiedFrom (secondOut font options pages i) = Some i"
  "op_cropBox (secondOut font options pages i) = Some (snd (rectsOf options pages i))"
  "op_width (secondOut font options pages i) = sp_width (pages ! i)"
  "op_height (secondOut font options pages i) = sp_height (pages ! i)"
  "op_drawn (secondOut font options pages i) =
     (if stampsSecond options i
      then [stampOf font (sp_width (pages ! i))
              (if stampsFirst options i then counterBefore options i + 1 else counterBefore options i)]
      else [])"
  by (simp_all add: secondOut_def halfPage_def)

lemma cropHalves_cropBox:
  "op_cropBox (fst (cropHalves vert w h r p1 p2)) = Some (fst (cropRects vert w h r))"
  "op_cropBox (snd (cropHalves vert w h r p1 p2)) = Some (snd (cropRects vert w h r))"
  by (simp_all add: cropHalves_def cropRects_def setCropBox_def Let_def)

lemma rectsOf_vertical:
  "useVerticalSplit options (sp_width (pages ! i)) (sp_height (pages ! i)) \<Longrightarrow>
     rectsOf options pages i =
       ((0, 0, sp_width (pages ! i) * currentRatio options i, sp_height (pages ! i)),
        (sp_width (pages ! i) * currentRatio options i, 0,
         sp_width (pages ! i) * (1 - currentRatio options i), sp_height (pages ! i)))"
  by (simp add: rectsOf_def cropRects_def algebra_simps)

lemma rectsOf_horizontal:
  "\<not> useVerticalSplit options (sp_width (pages ! i)) (sp_height (pages ! i)) \<Longrightarrow>
     rectsOf options pages i =
       ((0, sp_height (pages ! i) * (1 - currentRatio options i), sp_width (pages ! i),
         sp_height (pages ! i) * currentRatio options i),
        (0, 0, sp_width (pages ! i), sp_height (pages ! i) * (1 - currentRatio options i)))"
  by (simp add: rectsOf_def cropRects_def algebra_simps)

section \<open>Page count and page order\<close>

text \<open>
  Claim C1, as amended. Whenever the file loads and the font embeds, the saved document
  of a source with at least one page has exactly twice as many pages as the source,
  whatever the configuration. Its pages at positions \<open>2i\<close> and \<open>2i + 1\<close> are two copies
  of source page \<open>i\<close>, of the size of that page; the one at \<open>2i\<close> is cropped to the first
  half (the left part of a vertical split, the upper part of a horizontal one) and the
  one at \<open>2i + 1\<close> to the second half. A source without pages is saved as one blank
  page.
\<close>

theorem two_output_pages_per_source_page:
  assumes "load pdfFile = Some pages" and "embedFont = Some font"
  shows "\<exists>out. snd (splitA3ToA4 load embedFont pdfFile options) = Inr out \<and>
           (pages \<noteq> [] \<longrightarrow> length out = 2 * length pages) \<and>
           (pages = [] \<longrightarrow> out = [blankPage]) \<and>
           (\<forall>i<length pages.
              op_copiedFrom (out ! (2 * i)) = Some i \<and> op_copiedFrom (out ! (2 * i + 1)) = Some i \<and>
              (let w = sp_width (pages ! i); h = sp_height (pages ! i);
                   r = currentRatio options i
               in op_width (out ! (2 * i)) = w \<and> op_height (out ! (2 * i)) = h \<and>
                  op_width (out ! (2 * i + 1)) = w \<and> op_height (out ! (2 * i + 1)) = h \<and>
                  (if orientation options = Vertical \<or> (orientation options = Auto \<and> w > h)
                   then op_cropBox (out ! (2 * i)) = Some (0, 0, w * r, h) \<and>
                        op_cropBox (out ! (2 * i + 1)) = Some (w * r, 0, w * (1 - r), h)
                   else op_cropBox (out ! (2 * i)) = Some (0, h * (1 - r), w, h * r) \<and>
                        op_cropBox (out ! (2 * i + 1)) = Some (0, 0, w, h * (1 - r)))))"
proof (cases "pages = []")
  case True
  with assms have "snd (splitA3ToA4 load embedFont pdfFile options) = Inr [blankPage]"
    by (simp add: split_result save_loopState_empty)
  with True show ?thesis by simp
next
  case False
  let ?out = "outPdf (loopState font options pages (length pages))"
  have res: "snd (splitA3ToA4 load embedFont pdfFile options) = Inr ?out"
    using assms False by (simp add: split_result save_loopState)
  have len: "length ?out = 2 * length pages"
    by (rule length_outPdf_loopState)
  have each: "op_copiedFrom (?out ! (2 * i)) = Some i \<and> op_copiedFrom (?out ! (2 * i + 1)) = Some i \<and>
              (let w = sp_width (pages ! i); h = sp_height (pages ! i);
                   r = currentRatio options i
               in op_width (?out ! (2 * i)) = w \<and> op_height (?out ! (2 * i)) = h \<and>
                  op_width (?out ! (2 * i + 1)) = w \<and> op_height (?out ! (2 * i + 1)) = h \<and>
                  (if orientation options = Vertical \<or> (orientation options = Auto \<and> w > h)
                   then op_cropBox (?out ! (2 * i)) = Some (0, 0, w * r, h) \<and>
                        op_cropBox (?out ! (2 * i + 1)) = Some (w * r, 0, w * (1 - r), h)
                   else op_cropBox (?out ! (2 * i)) = Some (0, h * (1 - r), w, h * r) \<and>
                        op_cropBox (?out ! (2 * i + 1)) = Some (0, 0, w, h * (1 - r))))"
    if "i < length pages" for i
  proof -
    let ?w = "sp_width (pages ! i)" and ?h = "sp_height (pages ! i)"
    have axis: "useVerticalSplit options ?w ?h \<longleftrightarrow>
        orientation options = Vertical \<or> (orientation options = Auto \<and> ?w > ?h)"
      by (cases "orientation options") (simp_all add: useVerticalSplit_def)
    note nth = outPdf_nth [OF that, of font options pages]
    show ?thesis
    proof (cases "useVerticalSplit options ?w ?h")
      case True
      with axis have c: "orientation options = Vertical \<or> (orientation options = Auto \<and> ?w > ?h)"
        by blast
      show ?thesis
        unfolding Let_def nth [THEN conjunct1] nth [THEN conjunct2] if_P [OF c]
        by (simp add: firstOut_simps secondOut_simps rectsOf_vertical [OF True])
    next
      case False
      with axis have c: "\<not> (orientation options = Vertical \<or> (orientation options = Auto \<and> ?w > ?h))"
        by blast
      show ?thesis
        unfolding Let_def nth [THEN conjunct1] nth [THEN conjunct2] if_not_P [OF c]
        by (simp add: firstOut_simps secondOut_simps rectsOf_horizontal [OF False])
    qed
  qed
  from False res len each show ?thesis by blast
qed

theorem two_output_pages_per_source_page_witness:
  "sampleLoad [7, 7] = Some [\<lparr>sp_width = 1000, sp_height = 700\<rparr>, \<lparr>sp_width = 1000, sp_height = 700\<rparr>] \<and>
   (\<exists>out. snd (splitA3ToA4 sampleLoad (Some helvetica) [7, 7] sampleOptions) = Inr out \<and>
      length out = 4 \<and> op_copiedFrom (out ! 2) = Some 1 \<and> op_copiedFrom (out ! 3) = Some 1 \<and>
      op_cropBox (out ! 2) = Some (0, 0, 300, 700) \<and>
      op_cropBox (out ! 3) = Some (300, 0, 700, 700))"
proof -
  have l: "sampleLoad [7, 7] = Some [\<lparr>sp_width = 1000, sp_height = 700\<rparr>, \<lparr>sp_width = 1000, sp_height = 700\<rparr>]"
    by (simp add: sampleLoad_def)
  have r: "currentRatio sampleOptions (Suc 0) = 3 / 10"
    by (simp add: currentRatio_def sampleOptions_def isEvenPage_def)
  have a: "orientation sampleOptions = Auto"
    by (simp add: sampleOptions_def)
  from two_output_pages_per_source_page
         [where load = sampleLoad and pdfFile = "[7, 7]" and embedFont = "Some helvetica"
            and font = helvetica and options = sampleOptions, OF l refl]
  have "\<exists>out. snd (splitA3ToA4 sampleLoad (Some helvetica) [7, 7] sampleOptions) = Inr out \<and>
      length out = 4 \<and> op_copiedFrom (out ! 2) = Some 1 \<and> op_copiedFrom (out ! 3) = Some 1 \<and>
      op_cropBox (out ! 2) = Some (0, 0, 300, 700) \<and>
      op_cropBox (out ! 3) = Some (300, 0, 700, 700)"
    apply -
    apply (erule exE)
    apply (elim conjE)
    apply (erule allE [of _ 1])
    apply (rule exI)
    apply (rule conjI, assumption)
    apply (simp add: Let_def r a)
    done
  with l show ?thesis by (intro conjI)
qed

text \<open>
  The claim as first stated, twice the number of source pages for every source
  document, fails for a source without pages: no page is copied, and \<open>save\<close> adds
  its default page.
\<close>

theorem source_without_pages_is_saved_with_one_page:
  "sampleLoadNoPages [7] = Some [] \<and>
   snd (splitA3ToA4 sampleLoadNoPages (Some helvetica) [7] sampleOptions) = Inr [blankPage] \<and>
   length [blankPage] \<noteq> 2 * length ([] :: SourcePage list)"
  by (simp add: sampleLoadNoPages_def splitA3ToA4_def loopState_def initialState_def save_def)

section \<open>Crop geometry\<close>

text \<open>
  Claim C2. For source page \<open>i\<close> of size \<open>w\<close> by \<open>h\<close> and active ratio \<open>r\<close>: the
  split is vertical exactly when the orientation is vertical, or automatic with
  \<open>w > h\<close>; a vertical split crops the first copy to \<open>[0, 0, w r, h]\<close> and the
  second to \<open>[w r, 0, w (1 - r), h]\<close>; a horizontal split crops the first copy to the
  upper region \<open>[0, h (1 - r), w, h r]\<close> and the second to the lower region
  \<open>[0, 0, w, h (1 - r)]\<close>. Lengths are reals here, so \<open>w - w r\<close> and
  \<open>w (1 - r)\<close> are the same number.
\<close>

theorem crop_windows_of_the_two_halves:
  assumes "load pdfFile = Some pages" and "embedFont = Some font" and "i < length pages"
    and "w = sp_width (pages ! i)" and "h = sp_height (pages ! i)"
    and "r = currentRatio options i"
  shows "\<exists>out. snd (splitA3ToA4 load embedFont pdfFile options) = Inr out \<and>
     (useVerticalSplit options w h \<longleftrightarrow>
        orientation options = Vertical \<or> (orientation options = Auto \<and> w > h)) \<and>
     (useVerticalSplit options w h \<longrightarrow>
        op_cropBox (out ! (2 * i)) = Some (0, 0, w * r, h) \<and>
        op_cropBox (out ! (2 * i + 1)) = Some (w * r, 0, w * (1 - r), h)) \<and>
     (\<not> useVerticalSplit options w h \<longrightarrow>
        op_cropBox (out ! (2 * i)) = Some (0, h * (1 - r), w, h * r) \<and>
        op_cropBox (out ! (2 * i + 1)) = Some (0, 0, w, h * (1 - r)))"
proof -
  let ?out = "outPdf (loopState font options pages (length pages))"
  have res: "snd (splitA3ToA4 load embedFont pdfFile options) = Inr ?out"
  proof -
    from assms(3) have "pages \<noteq> []" by auto
    with assms(1,2) show ?thesis by (simp add: split_result save_loopState)
  qed
  have axis: "useVerticalSplit options w h \<longleftrightarrow>
        orientation options = Vertical \<or> (orientation options = Auto \<and> w > h)"
    by (cases "orientation options") (simp_all add: useVerticalSplit_def)
  have boxes: "op_cropBox (?out ! (2 * i)) = Some (fst (rectsOf options pages i))"
      "op_cropBox (?out ! (2 * i + 1)) = Some (snd (rectsOf options pages i))"
    using outPdf_nth [OF assms(3), of font options pages]
    by (simp_all add: firstOut_simps secondOut_simps)
  have v: "op_cropBox (?out ! (2 * i)) = Some (0, 0, w * r, h) \<and>
        op_cropBox (?out ! (2 * i + 1)) = Some (w * r, 0, w * (1 - r), h)"
    if "useVerticalSplit options w h"
    using that boxes rectsOf_vertical [of options pages i] assms(4-6) by simp
  have hz: "op_cropBox (?out ! (2 * i)) = Some (0, h * (1 - r), w, h * r) \<and>
        op_cropBox (?out ! (2 * i + 1)) = Some (0, 0, w, h * (1 - r))"
    if "\<not> useVerticalSplit options w h"
    using that boxes rectsOf_horizontal [of options pages i] assms(4-6) by simp
  from res axis v hz show ?thesis by blast
qed

lemma sample_pages: "sampleLoad [7, 7] = Some [\<lparr>sp_width = 1000, sp_height = 700\<rparr>, \<lparr>sp_width = 1000, sp_height = 700\<rparr>]"
  by (simp add: sampleLoad_def)

theorem crop_windows_of_the_two_halves_witness:
  "sampleLoad [7, 7] = Some [\<lparr>sp_width = 1000, sp_height = 700\<rparr>, \<lparr>sp_width = 1000, sp_height = 700\<rparr>] \<and>
   (1::nat) < length [\<lparr>sp_width = 1000, sp_height = 700\<rparr>, \<lparr>sp_width = 1000, sp_height = 700\<rparr>] \<and>
   currentRatio sampleOptions 1 = 3 / 10 \<and>
   useVerticalSplit sampleOptions 1000 700 \<and>
   (\<exists>out. snd (splitA3ToA4 sampleLoad (Some helvetica) [7, 7] sampleOptions) = Inr out \<and>
      op_cropBox (out ! 2) = Some (0, 0, 300, 700) \<and>
      op_cropBox (out ! 3) = Some (300, 0, 700, 700))"
proof -
  have r: "currentRatio sampleOptions 1 = 3 / 10"
    by (simp add: currentRatio_def sampleOptions_def isEvenPage_def)
  have v: "useVerticalSplit sampleOptions 1000 700"
    by (simp add: useVerticalSplit_def sampleOptions_def)
  from crop_windows_of_the_two_halves
         [where load = sampleLoad and pdfFile = "[7, 7]" and embedFont = "Some helvetica"
            and font = helvetica and options = sampleOptions and i = 1
            and w = 1000 and h = 700 and r = "3 / 10", OF sample_pages refl]
  show ?thesis using r v sample_pages by auto
qed

section \<open>Ratio selection\<close>

text \<open>
  Claim C3. For the source page at zero-based index \<open>i\<close> the active ratio is
  \<open>evenSplitRatio\<close> when \<open>useDualRatios\<close> is set, \<open>i mod 2 = 1\<close> and
  \<open>evenSplitRatio\<close> is defined, and \<open>splitRatio\<close> otherwise; so, unless the two
  ratios are the same number, it equals \<open>evenSplitRatio\<close> exactly under that
  condition. With dual ratios on, \<open>splitRatio = 0.5\<close> and \<open>evenSplitRatio = 0.3\<close>, the
  page at index 1 gets 0.3.
\<close>

theorem active_ratio_selection:
  "(useDualRatios options \<and> i mod 2 = 1 \<and> evenSplitRatio options = Some e
      \<longrightarrow> currentRatio options i = e) \<and>
   (\<not> (useDualRatios options \<and> i mod 2 = 1 \<and> evenSplitRatio options \<noteq> None)
      \<longrightarrow> currentRatio options i = splitRatio options) \<and>
   (evenSplitRatio options \<noteq> Some (splitRatio options) \<longrightarrow>
      (Some (currentRatio options i) = evenSplitRatio options \<longleftrightarrow>
         useDualRatios options \<and> i mod 2 = 1 \<and> evenSplitRatio options \<noteq> None)) \<and>
   (useDualRatios options \<and> splitRatio options = 1 / 2 \<and> evenSplitRatio options = Some (3 / 10)
      \<longrightarrow> currentRatio options 1 = 3 / 10)"
  by (auto simp: currentRatio_def isEvenPage_def)

theorem active_ratio_selection_witness:
  "useDualRatios sampleOptions \<and> (1::nat) mod 2 = 1 \<and>
   evenSplitRatio sampleOptions = Some (3 / 10) \<and> splitRatio sampleOptions = 1 / 2 \<and>
   evenSplitRatio sampleOptions \<noteq> Some (splitRatio sampleOptions) \<and>
   currentRatio sampleOptions 1 = 3 / 10 \<and>
   \<not> (useDualRatios sampleOptions \<and> (2::nat) mod 2 = 1 \<and> evenSplitRatio sampleOptions \<noteq> None) \<and>
   currentRatio sampleOptions 2 = 1 / 2"
  using active_ratio_selection [of sampleOptions 1 "3 / 10"]
    active_ratio_selection [of sampleOptions 2 "3 / 10"]
  by (simp add: sampleOptions_def)

section \<open>Failure to load\<close>

text \<open>
  Claim C8. If the bytes of the file do not parse, the function fails with the loader's
  error: no document is returned, and the progress callback has not been called.
\<close>

theorem malformed_input_fails_before_any_progress:
  "load pdfFile = None \<Longrightarrow>
     splitA3ToA4 load embedFont pdfFile options = ([], Inl LoadFailed)"
  by (simp add: splitA3ToA4_def)

theorem malformed_input_fails_before_any_progress_witness:
  "sampleLoad [] = None \<and>
   splitA3ToA4 sampleLoad (Some helvetica) [] sampleOptions = ([], Inl LoadFailed)"
proof -
  have n: "sampleLoad [] = None" by (simp add: sampleLoad_def)
  from malformed_input_fails_before_any_progress
         [where load = sampleLoad and pdfFile = "[]" and embedFont = "Some helvetica"
            and options = sampleOptions, OF n] n
  show ?thesis by simp
qed

section \<open>The option that is never read\<close>

lemma helpers_mergeToSingleFile:
  "currentRatio (options\<lparr>mergeToSingleFile := b\<rparr>) = currentRatio options"
  "useVerticalSplit (options\<lparr>mergeToSingleFile := b\<rparr>) = useVerticalSplit options"
  "shouldAddNumberToThisA3Page (options\<lparr>mergeToSingleFile := b\<rparr>) =
     shouldAddNumberToThisA3Page options"
  by (simp_all add: fun_eq_iff currentRatio_def useVerticalSplit_def
      shouldAddNumberToThisA3Page_def cong: if_cong)

lemma loopBody_mergeToSingleFile:
  "loopBody font (options\<lparr>mergeToSingleFile := b\<rparr>) pages = loopBody font options pages"
  by (simp add: fun_eq_iff loopBody_def helpers_mergeToSingleFile)

text \<open>
  Claim C10. Changing \<open>mergeToSingleFile\<close>, and nothing else, changes neither the
  document produced nor the values passed to the progress callback, nor whether the
  function fails.
\<close>

theorem mergeToSingleFile_has_no_effect:
  "splitA3ToA4 load embedFont pdfFile (options\<lparr>mergeToSingleFile := b\<rparr>) =
     splitA3ToA4 load embedFont pdfFile options"
  by (simp add: splitA3ToA4_def loopState_def loopBody_mergeToSingleFile initialState_def
      split: option.splits)

section \<open>Progress\<close>

text \<open>
  Claim C6. For a document of \<open>n \<ge> 1\<close> pages the callback is called once at the end of
  each iteration, so \<open>k\<close> times when \<open>2k\<close> pages have been appended and \<open>n\<close> times in
  all; the \<open>k\<close>-th value, counting from 1, is \<open>k / n \<times> 100\<close>; the values increase
  strictly, lie between 0 and 100, and the last one is 100. Values are reals here.
\<close>

theorem progress_values:
  assumes "load pdfFile = Some pages" and "embedFont = Some font"
    and "n = length pages" and "1 \<le> n"
    and "progress = fst (splitA3ToA4 load embedFont pdfFile options)"
  shows "length progress = n \<and>
     (\<forall>k\<le>n. length (progressLog (loopState font options pages k)) = k \<and>
             length (outPdf (loopState font options pages k)) = 2 * k) \<and>
     (\<forall>k. 1 \<le> k \<and> k \<le> n \<longrightarrow> progress ! (k - 1) = real k / real n * 100) \<and>
     sorted_wrt (<) progress \<and>
     (\<forall>v\<in>set progress. 0 \<le> v \<and> v \<le> 100) \<and>
     last progress = 100"
proof -
  have p: "progress = map (\<lambda>i. real (i + 1) / real n * 100) [0..<n]"
    using assms by (simp add: split_result progressLog_loopState)
  have len: "length progress = n"
    by (simp add: p)
  have iter: "\<forall>k\<le>n. length (progressLog (loopState font options pages k)) = k \<and>
             length (outPdf (loopState font options pages k)) = 2 * k"
    by (simp add: progressLog_loopState length_outPdf_loopState)
  have nth: "\<forall>k. 1 \<le> k \<and> k \<le> n \<longrightarrow> progress ! (k - 1) = real k / real n * 100"
    by (auto simp: p)
  have npos: "0 < real n"
    using assms(4) by simp
  have "progress ! i < progress ! j" if "i < j" "j < length progress" for i j
    using that npos by (simp add: p divide_strict_right_mono)
  then have incr: "sorted_wrt (<) progress"
    by (simp add: sorted_wrt_iff_nth_less)
  have bounds: "\<forall>v\<in>set progress. 0 \<le> v \<and> v \<le> 100"
  proof
    fix v assume "v \<in> set progress"
    then obtain i where i: "i < n" and v: "v = real (i + 1) / real n * 100"
      by (auto simp: p)
    define q where "q = real (i + 1) / real n"
    have "0 \<le> q" and "q \<le> 1"
      using i npos by (simp_all add: q_def divide_le_eq_1)
    then have "0 \<le> q * 100 \<and> q * 100 \<le> 100" by simp
    then show "0 \<le> v \<and> v \<le> 100" unfolding v q_def .
  qed
  have lst: "last progress = 100"
    using assms(4) by (simp add: p last_map)
  from len iter nth incr bounds lst show ?thesis by blast
qed


theorem progress_values_witness:
  "sampleLoad [7, 7] = Some [\<lparr>sp_width = 1000, sp_height = 700\<rparr>, \<lparr>sp_width = 1000, sp_height = 700\<rparr>] \<and>
   (1::nat) \<le> 2 \<and>
   length (fst (splitA3ToA4 sampleLoad (Some helvetica) [7, 7] sampleOptions)) = 2 \<and>
   fst (splitA3ToA4 sampleLoad (Some helvetica) [7, 7] sampleOptions) ! 0 = 50 \<and>
   fst (splitA3ToA4 sampleLoad (Some helvetica) [7, 7] sampleOptions) ! 1 = 100 \<and>
   last (fst (splitA3ToA4 sampleLoad (Some helvetica) [7, 7] sampleOptions)) = 100"
proof -
  let ?pages = "[\<lparr>sp_width = 1000, sp_height = 700\<rparr>, \<lparr>sp_width = 1000, sp_height = 700\<rparr>]"
  let ?progress = "fst (splitA3ToA4 sampleLoad (Some helvetica) [7, 7] sampleOptions)"
  have n: "(2::nat) = length ?pages" by simp
  have one: "(1::nat) \<le> 2" by simp
  note t = progress_values
         [where load = sampleLoad and pdfFile = "[7, 7]" and embedFont = "Some helvetica"
            and font = helvetica and options = sampleOptions and n = 2 and progress = ?progress,
          OF sample_pages refl n one refl]
  from t have len: "length ?progress = 2" by (elim conjE)
  from t have nth: "\<forall>k. 1 \<le> k \<and> k \<le> 2 \<longrightarrow> ?progress ! (k - 1) = real k / real 2 * 100"
    by (elim conjE)
  from t have lst: "last ?progress = 100" by (elim conjE)
  from nth [rule_format, of 1] have p0: "?progress ! 0 = 50" by simp
  from nth [rule_format, of 2] have p1: "?progress ! 1 = 100" by simp
  from sample_pages one len p0 p1 lst show ?thesis by (intro conjI)
qed

section \<open>The two halves tile the page\<close>

lemma vertical_tiles:
  assumes "0 < r" and "r < 1"
  shows "region (0, 0, w * r, h) \<inter> region (w * r, 0, w - w * r, h) = {}"
    and "region (0, 0, w * r, h) \<union> region (w * r, 0, w - w * r, h) = region (0, 0, w, h)"
proof -
  show "region (0, 0, w * r, h) \<inter> region (w * r, 0, w - w * r, h) = {}"
    by (auto simp: region_def)
  have below: "a < w" if "0 \<le> a" "a < w * r" for a
  proof -
    from that have "0 < w * r" by simp
    with assms(1) have "0 < w" by (simp add: zero_less_mult_iff)
    with assms(2) have "w * r < w" by simp
    with that show ?thesis by simp
  qed
  have above: "0 \<le> a" if "w * r \<le> a" "a < w" for a
  proof -
    from that have "w * r < w" by simp
    with assms(2) have "0 < w" by (simp add: mult_less_cancel_left2 not_less [symmetric])
    with assms(1) that show ?thesis
      by (meson less_eq_real_def mult_pos_pos order_trans)
  qed
  show "region (0, 0, w * r, h) \<union> region (w * r, 0, w - w * r, h) = region (0, 0, w, h)"
    using below above by (auto simp: region_def)
qed


lemma horizontal_tiles:
  assumes "0 < r" and "r < 1"
  shows "region (0, h * (1 - r), w, h - h * (1 - r)) \<inter> region (0, 0, w, h * (1 - r)) = {}"
    and "region (0, h * (1 - r), w, h - h * (1 - r)) \<union> region (0, 0, w, h * (1 - r)) = region (0, 0, w, h)"
proof -
  from assms have s: "0 < 1 - r" "1 - r < 1" by simp_all
  have "region (0, 0, w, h * (1 - r)) = {(a, c). (c, a) \<in> region (0, 0, h * (1 - r), w)}"
       "region (0, h * (1 - r), w, h - h * (1 - r)) = {(a, c). (c, a) \<in> region (h * (1 - r), 0, h - h * (1 - r), w)}"
       "region (0, 0, w, h) = {(a, c). (c, a) \<in> region (0, 0, h, w)}"
    by (auto simp: region_def)
  moreover note vertical_tiles [OF s, of h w]
  ultimately show
    "region (0, h * (1 - r), w, h - h * (1 - r)) \<inter> region (0, 0, w, h * (1 - r)) = {}"
    "region (0, h * (1 - r), w, h - h * (1 - r)) \<union> region (0, 0, w, h * (1 - r)) = region (0, 0, w, h)"
    by auto
qed

lemma cropRects_tile:
  assumes "0 < r" and "r < 1"
  shows "region (fst (cropRects vert w h r)) \<inter> region (snd (cropRects vert w h r)) = {} \<and>
         region (fst (cropRects vert w h r)) \<union> region (snd (cropRects vert w h r)) = region (0, 0, w, h)"
  using vertical_tiles [OF assms, of w h] horizontal_tiles [OF assms, of h w]
  by (simp add: cropRects_def)

text \<open>
  Claim C9. For source page \<open>i\<close> of size \<open>w\<close> by \<open>h\<close> whose active ratio lies strictly
  between 0 and 1, the crop boxes of its two output pages have no point in common, and
  together they are the page \<open>[0, 0, w, h]\<close>. Lengths are reals here.
\<close>

theorem halves_are_disjoint_and_cover_the_page:
  assumes "load pdfFile = Some pages" and "embedFont = Some font" and "i < length pages"
    and "0 < currentRatio options i" and "currentRatio options i < 1"
  shows "\<exists>out b1 b2. snd (splitA3ToA4 load embedFont pdfFile options) = Inr out \<and>
     op_cropBox (out ! (2 * i)) = Some b1 \<and> op_cropBox (out ! (2 * i + 1)) = Some b2 \<and>
     region b1 \<inter> region b2 = {} \<and>
     region b1 \<union> region b2 = region (0, 0, sp_width (pages ! i), sp_height (pages ! i))"
proof -
  let ?out = "outPdf (loopState font options pages (length pages))"
  have res: "snd (splitA3ToA4 load embedFont pdfFile options) = Inr ?out"
  proof -
    from assms(3) have "pages \<noteq> []" by auto
    with assms(1,2) show ?thesis by (simp add: split_result save_loopState)
  qed
  have boxes: "op_cropBox (?out ! (2 * i)) = Some (fst (rectsOf options pages i))"
      "op_cropBox (?out ! (2 * i + 1)) = Some (snd (rectsOf options pages i))"
    using outPdf_nth [OF assms(3), of font options pages]
    by (simp_all add: firstOut_simps secondOut_simps)
  have tile: "region (fst (rectsOf options pages i)) \<inter> region (snd (rectsOf options pages i)) = {} \<and>
      region (fst (rectsOf options pages i)) \<union> region (snd (rectsOf options pages i)) =
        region (0, 0, sp_width (pages ! i), sp_height (pages ! i))"
    unfolding rectsOf_def by (rule cropRects_tile [OF assms(4,5)])
  from res boxes tile show ?thesis by blast
qed

theorem halves_are_disjoint_and_cover_the_page_witness:
  "sampleLoad [7, 7] = Some [\<lparr>sp_width = 1000, sp_height = 700\<rparr>, \<lparr>sp_width = 1000, sp_height = 700\<rparr>] \<and>
   0 < currentRatio sampleOptions 1 \<and> currentRatio sampleOptions 1 < 1 \<and>
   (\<exists>out b1 b2. snd (splitA3ToA4 sampleLoad (Some helvetica) [7, 7] sampleOptions) = Inr out \<and>
      op_cropBox (out ! 2) = Some b1 \<and> op_cropBox (out ! 3) = Some b2 \<and>
      region b1 \<inter> region b2 = {} \<and> region b1 \<union> region b2 = region (0, 0, 1000, 700))"
proof -
  have r: "0 < currentRatio sampleOptions 1" "currentRatio sampleOptions 1 < 1"
    by (simp_all add: currentRatio_def sampleOptions_def isEvenPage_def)
  have i: "(1::nat) < length [\<lparr>sp_width = 1000, sp_height = 700\<rparr>, \<lparr>sp_width = 1000, sp_height = 700\<rparr>]"
    by simp
  from halves_are_disjoint_and_cover_the_page
         [where load = sampleLoad and pdfFile = "[7, 7]" and embedFont = "Some helvetica"
            and font = helvetica and options = sampleOptions and i = 1,
          OF sample_pages refl i r]
  have "\<exists>out b1 b2. snd (splitA3ToA4 sampleLoad (Some helvetica) [7, 7] sampleOptions) = Inr out \<and>
      op_cropBox (out ! 2) = Some b1 \<and> op_cropBox (out ! 3) = Some b2 \<and>
      region b1 \<inter> region b2 = {} \<and> region b1 \<union> region b2 = region (0, 0, 1000, 700)"
    by simp
  with sample_pages r show ?thesis by (intro conjI)
qed

section \<open>The page-number counter\<close>

lemma counterBefore_ge: "startingPageNumber options \<le> counterBefore options k"
  by (simp add: counterBefore_def partsPerPage_def)

lemma counterBefore_mono: "counterBefore options k \<le> counterBefore options (Suc k)"
  by (simp add: counterBefore_Suc Let_def)

lemma upto_snoc: "a \<le> c + 1 \<Longrightarrow> [a..c + 1] = [a..c] @ [c + 1]"
  using upto_rec2 [of a "c + 1"] by simp

lemma stampedTexts_loopState:
  "stampedTexts (outPdf (loopState font options pages k)) =
     map numberToString [startingPageNumber options..counterBefore options k - 1]"
proof (induction k)
  case 0
  show ?case
    by (simp add: loopState_0 initialState_def stampedTexts_def counterBefore_def)
next
  case (Suc k)
  let ?s = "startingPageNumber options" and ?c = "counterBefore options k"
  have ge: "?s \<le> ?c" by (rule counterBefore_ge)
  have one: "[?s..?c] = [?s..?c - 1] @ [?c]"
    using ge upto_rec2 [of ?s ?c] by simp
  have two: "[?s..?c + 1] = [?s..?c - 1] @ [?c, ?c + 1]"
    using ge upto_snoc [of ?s ?c] one by simp
  have step: "stampedTexts (outPdf (loopState font options pages (Suc k))) =
      stampedTexts (outPdf (loopState font options pages k)) @
      (if stampsFirst options k then [numberToString ?c] else []) @
      (if stampsSecond options k
       then [numberToString (if stampsFirst options k then ?c + 1 else ?c)] else [])"
    by (simp add: outPdf_loopState_Suc stampedTexts_def firstOut_simps secondOut_simps stampOf_def)
  show ?case
    by (simp add: step Suc.IH counterBefore_Suc Let_def one two)
qed

lemma length_stampedTexts_loopState:
  "int (length (stampedTexts (outPdf (loopState font options pages k)))) =
     counterBefore options k - startingPageNumber options"
  using counterBefore_ge [of options k] by (simp add: stampedTexts_loopState)


lemma drawn_texts_nth:
  assumes "i < k"
  shows "map dt_text (op_drawn (outPdf (loopState font options pages k) ! (2 * i))) =
           (if stampsFirst options i then [numberToString (counterBefore options i)] else [])"
    and "map dt_text (op_drawn (outPdf (loopState font options pages k) ! (2 * i + 1))) =
           (if stampsSecond options i
            then [numberToString (if stampsFirst options i then counterBefore options i + 1
                                  else counterBefore options i)]
            else [])"
  using outPdf_nth [OF assms, of font options pages]
  by (simp_all add: firstOut_simps secondOut_simps stampOf_def)

text \<open>
  Claim C5. The counter starts at \<open>startingPageNumber\<close>; at every point of the loop it
  is that value plus the number of halves stamped so far, and it never goes down; the
  stamped texts, in output order, are the consecutive integers from the starting value.
  The first copy of page \<open>i\<close> is stamped exactly when numbering is on,
  \<open>i \<ge> numberingStartFromPageIndex\<close> and the side is both or first, and it gets the
  value the counter has when the iteration starts; the second copy exactly when the
  side is both or second, and it gets the value after the first copy's increment. With
  numbering on, starting value 5, start index 0, both sides and 3 source pages, the
  stamps are 5, 6, 7, 8, 9, 10.
\<close>

theorem counter_counts_stamped_halves:
  assumes "load pdfFile = Some pages" and "embedFont = Some font"
  shows "\<exists>out. snd (splitA3ToA4 load embedFont pdfFile options) = Inr out \<and>
     pageNumberCounter (loopState font options pages 0) = startingPageNumber options \<and>
     (\<forall>k. pageNumberCounter (loopState font options pages k) =
            startingPageNumber options +
              int (length (stampedTexts (outPdf (loopState font options pages k)))) \<and>
          pageNumberCounter (loopState font options pages k)
            \<le> pageNumberCounter (loopState font options pages (Suc k))) \<and>
     stampedTexts out =
       map numberToString
         [startingPageNumber options..
          startingPageNumber options + int (length (stampedTexts out)) - 1] \<and>
     (\<forall>i<length pages.
        map dt_text (op_drawn (out ! (2 * i))) =
          (if enablePageNumbering options \<and> numberingStartFromPageIndex options \<le> i \<and>
              (numberingSide options = Both \<or> numberingSide options = First)
           then [numberToString (pageNumberCounter (loopState font options pages i))] else []) \<and>
        map dt_text (op_drawn (out ! (2 * i + 1))) =
          (if enablePageNumbering options \<and> numberingStartFromPageIndex options \<le> i \<and>
              (numberingSide options = Both \<or> numberingSide options = Second)
           then [numberToString (pageNumberCounter (loopState font options pages i) +
                                 (if numberingSide options = Both then 1 else 0))]
           else [])) \<and>
     (enablePageNumbering options \<and> startingPageNumber options = 5 \<and>
      numberingStartFromPageIndex options = 0 \<and> numberingSide options = Both \<and>
      length pages = 3 \<longrightarrow>
        stampedTexts out = [''5'', ''6'', ''7'', ''8'', ''9'', ''10''])"
proof -
  let ?st = "loopState font options pages"
  let ?out = "save (outPdf (?st (length pages)))"
  have res: "snd (splitA3ToA4 load embedFont pdfFile options) = Inr ?out"
    using assms by (simp add: split_result)
  have texts: "stampedTexts ?out = stampedTexts (outPdf (?st (length pages)))"
    by (simp add: save_def stampedTexts_def blankPage_def)
  have same: "?out = outPdf (?st (length pages))" if "pages \<noteq> []"
    using that by (rule save_loopState)
  have init: "pageNumberCounter (?st 0) = startingPageNumber options"
    by (simp add: loopState_0 initialState_def)
  have inv: "\<forall>k. pageNumberCounter (?st k) =
            startingPageNumber options + int (length (stampedTexts (outPdf (?st k)))) \<and>
          pageNumberCounter (?st k) \<le> pageNumberCounter (?st (Suc k))"
    by (simp add: counter_loopState length_stampedTexts_loopState counterBefore_mono)
  have seq: "stampedTexts ?out =
       map numberToString
         [startingPageNumber options..
          startingPageNumber options + int (length (stampedTexts ?out)) - 1]"
    unfolding texts
    by (simp add: length_stampedTexts_loopState) (rule stampedTexts_loopState)
  have each: "map dt_text (op_drawn (?out ! (2 * i))) =
          (if enablePageNumbering options \<and> numberingStartFromPageIndex options \<le> i \<and>
              (numberingSide options = Both \<or> numberingSide options = First)
           then [numberToString (pageNumberCounter (?st i))] else []) \<and>
        map dt_text (op_drawn (?out ! (2 * i + 1))) =
          (if enablePageNumbering options \<and> numberingStartFromPageIndex options \<le> i \<and>
              (numberingSide options = Both \<or> numberingSide options = Second)
           then [numberToString (pageNumberCounter (?st i) +
                                 (if numberingSide options = Both then 1 else 0))]
           else [])" if "i < length pages" for i
  proof -
    from that have "pages \<noteq> []" by auto
    note same [OF this]
    then show ?thesis
      using drawn_texts_nth [OF that, of font options pages]
      by (cases "numberingSide options")
         (simp_all add: counter_loopState stampsFirst_def stampsSecond_def
            shouldAddNumberToThisA3Page_def)
  qed
  have ex: "stampedTexts ?out = [''5'', ''6'', ''7'', ''8'', ''9'', ''10'']"
    if "enablePageNumbering options \<and> startingPageNumber options = 5 \<and>
      numberingStartFromPageIndex options = 0 \<and> numberingSide options = Both \<and>
      length pages = 3"
  proof -
    from that have "counterBefore options (length pages) = 11"
      by (simp add: counterBefore_def partsPerPage_def)
    with that show ?thesis
      unfolding texts
      by (simp add: stampedTexts_loopState upto_rec_numeral numberToString_def natToString.simps)
  qed
  from res init inv seq each ex show ?thesis by blast
qed


theorem counter_counts_stamped_halves_witness:
  "sampleLoad [7, 7, 7] =
     Some [\<lparr>sp_width = 1000, sp_height = 700\<rparr>, \<lparr>sp_width = 1000, sp_height = 700\<rparr>,
           \<lparr>sp_width = 1000, sp_height = 700\<rparr>] \<and>
   enablePageNumbering sampleOptions \<and> startingPageNumber sampleOptions = 5 \<and>
   numberingStartFromPageIndex sampleOptions = 0 \<and> numberingSide sampleOptions = Both \<and>
   (\<exists>out. snd (splitA3ToA4 sampleLoad (Some helvetica) [7, 7, 7] sampleOptions) = Inr out \<and>
      stampedTexts out = [''5'', ''6'', ''7'', ''8'', ''9'', ''10''])"
proof -
  have l: "sampleLoad [7, 7, 7] =
     Some [\<lparr>sp_width = 1000, sp_height = 700\<rparr>, \<lparr>sp_width = 1000, sp_height = 700\<rparr>,
           \<lparr>sp_width = 1000, sp_height = 700\<rparr>]"
    by (simp add: sampleLoad_def)
  have o: "enablePageNumbering sampleOptions \<and> startingPageNumber sampleOptions = 5 \<and>
      numberingStartFromPageIndex sampleOptions = 0 \<and> numberingSide sampleOptions = Both"
    by (simp add: sampleOptions_def)
  from counter_counts_stamped_halves
         [where load = sampleLoad and pdfFile = "[7, 7, 7]" and embedFont = "Some helvetica"
            and font = helvetica and options = sampleOptions, OF l refl]
  obtain out where
    r: "snd (splitA3ToA4 sampleLoad (Some helvetica) [7, 7, 7] sampleOptions) = Inr out"
    and e: "enablePageNumbering sampleOptions \<and> startingPageNumber sampleOptions = 5 \<and>
      numberingStartFromPageIndex sampleOptions = 0 \<and> numberingSide sampleOptions = Both \<and>
      length [\<lparr>sp_width = 1000, sp_height = 700\<rparr>, \<lparr>sp_width = 1000, sp_height = 700\<rparr>,
           \<lparr>sp_width = (1000::real), sp_height = (700::real)\<rparr>] = 3 \<longrightarrow>
        stampedTexts out = [''5'', ''6'', ''7'', ''8'', ''9'', ''10'']"
    by blast
  from e o have "stampedTexts out = [''5'', ''6'', ''7'', ''8'', ''9'', ''10'']"
    by simp
  with l o r show ?thesis by blast
qed

section \<open>The preview agrees with the splitter\<close>

lemma preview_axis:
  "previewInfo st = Some (w, h) \<Longrightarrow>
     isVerticalSplit st = useVerticalSplit (handleProcessOptions st) w h"
  by (simp add: isVerticalSplit_def useVerticalSplit_def handleProcessOptions_def)

lemma preview_ratio:
  "currentPage st = int p + 1 \<Longrightarrow>
     currentActiveRatio st = currentRatio (handleProcessOptions st) p"
proof -
  assume c: "currentPage st = int p + 1"
  have "(int p + 1) mod 2 = 0 \<longleftrightarrow> p mod 2 = 1"
    by presburger
  with c show ?thesis
    by (simp add: currentActiveRatio_def isCurrentPageEven_def currentRatio_def isEvenPage_def
        handleProcessOptions_def)
qed

lemma preview_numbers:
  assumes "currentPage st = int p + 1"
  shows "getSimulatedPageNumbers st =
     (let options = handleProcessOptions st; c = counterBefore options p
      in ((if stampsFirst options p then Some c else None),
          (if stampsSecond options p
           then Some (if stampsFirst options p then c + 1 else c) else None)))"
proof -
  let ?k = "numberingStartFromPageIndex_state st"
  have m: "max 0 (int p - int ?k) = int (p - ?k)"
    by simp
  show ?thesis
    using assms
    by (cases "numberingSide_state st")
       (auto simp: getSimulatedPageNumbers_def Let_def m counterBefore_def partsPerPage_def
          stampsFirst_def stampsSecond_def shouldAddNumberToThisA3Page_def
          handleProcessOptions_def)
qed


lemma loopState_mergeToSingleFile:
  "loopState font (options\<lparr>mergeToSingleFile := b\<rparr>) pages k = loopState font options pages k"
  by (simp add: loopState_def loopBody_mergeToSingleFile initialState_def)

text \<open>
  Claim C4. Take any configuration whose \<open>evenSplitRatio\<close> is defined, that is, the
  options that \<open>handleProcess\<close> builds from the state of the component, with
  \<open>mergeToSingleFile\<close> of either value. When the preview shows source page \<open>p\<close>
  (\<open>currentPage = p + 1\<close>) and knows its size, the split axis and the active ratio of
  the preview are those of the splitter's iteration \<open>p\<close>, the crop boxes of output
  pages \<open>2p\<close> and \<open>2p + 1\<close> are the ones that axis and ratio give, and the predicted
  labels, computed in closed form, are the numbers the loop stamps on these two pages:
  as texts, and as values of the running counter.
\<close>

theorem preview_matches_splitter:
  assumes "load pdfFile = Some pages" and "embedFont = Some font" and "p < length pages"
    and "handleProcessOptions st = options\<lparr>mergeToSingleFile := True\<rparr>"
    and "currentPage st = int p + 1"
    and "previewInfo st = Some (w, h)"
    and "w = sp_width (pages ! p)" and "h = sp_height (pages ! p)"
  shows "\<exists>out. snd (splitA3ToA4 load embedFont pdfFile options) = Inr out \<and>
     isVerticalSplit st = useVerticalSplit options w h \<and>
     currentActiveRatio st = currentRatio options p \<and>
     op_cropBox (out ! (2 * p)) =
       op_cropBox (fst (cropHalves (isVerticalSplit st) w h (currentActiveRatio st)
                          (copyPage pages p) (copyPage pages p))) \<and>
     op_cropBox (out ! (2 * p + 1)) =
       op_cropBox (snd (cropHalves (isVerticalSplit st) w h (currentActiveRatio st)
                          (copyPage pages p) (copyPage pages p))) \<and>
     map dt_text (op_drawn (out ! (2 * p))) = labelTexts (fst (getSimulatedPageNumbers st)) \<and>
     map dt_text (op_drawn (out ! (2 * p + 1))) = labelTexts (snd (getSimulatedPageNumbers st)) \<and>
     fst (getSimulatedPageNumbers st) =
       (if enablePageNumbering options \<and> numberingStartFromPageIndex options \<le> p \<and>
           (numberingSide options = Both \<or> numberingSide options = First)
        then Some (pageNumberCounter (loopState font options pages p)) else None) \<and>
     snd (getSimulatedPageNumbers st) =
       (if enablePageNumbering options \<and> numberingStartFromPageIndex options \<le> p \<and>
           (numberingSide options = Both \<or> numberingSide options = Second)
        then Some (pageNumberCounter (loopState font options pages p) +
                   (if numberingSide options = Both then 1 else 0))
        else None)"
proof -
  let ?o = "handleProcessOptions st"
  let ?out = "outPdf (loopState font options pages (length pages))"
  have st: "loopState font options pages k = loopState font ?o pages k" for k
    by (simp add: assms(4) loopState_mergeToSingleFile)
  have fields: "useVerticalSplit options = useVerticalSplit ?o"
      "currentRatio options = currentRatio ?o"
      "enablePageNumbering options = enablePageNumbering ?o"
      "numberingStartFromPageIndex options = numberingStartFromPageIndex ?o"
      "numberingSide options = numberingSide ?o"
    by (simp_all add: assms(4) helpers_mergeToSingleFile)
  have res: "snd (splitA3ToA4 load embedFont pdfFile options) = Inr ?out"
  proof -
    from assms(3) have "pages \<noteq> []" by auto
    with assms(1,2) show ?thesis by (simp add: split_result save_loopState)
  qed
  have axis: "isVerticalSplit st = useVerticalSplit options w h"
    by (simp only: fields preview_axis [OF assms(6)])
  have ratio: "currentActiveRatio st = currentRatio options p"
    by (simp only: fields preview_ratio [OF assms(5)])
  have nth: "?out ! (2 * p) = firstOut font ?o pages p"
      "?out ! (2 * p + 1) = secondOut font ?o pages p"
    using outPdf_nth [OF assms(3), of font ?o pages] by (simp_all add: st)
  have boxes: "op_cropBox (?out ! (2 * p)) =
       op_cropBox (fst (cropHalves (isVerticalSplit st) w h (currentActiveRatio st)
                          (copyPage pages p) (copyPage pages p)))"
      "op_cropBox (?out ! (2 * p + 1)) =
       op_cropBox (snd (cropHalves (isVerticalSplit st) w h (currentActiveRatio st)
                          (copyPage pages p) (copyPage pages p)))"
    unfolding nth
    by (simp_all add: firstOut_simps secondOut_simps cropHalves_cropBox rectsOf_def
          preview_axis [OF assms(6)] preview_ratio [OF assms(5)] assms(7,8))
  note nums = preview_numbers [OF assms(5)]
  have texts: "map dt_text (op_drawn (?out ! (2 * p))) = labelTexts (fst (getSimulatedPageNumbers st))"
      "map dt_text (op_drawn (?out ! (2 * p + 1))) = labelTexts (snd (getSimulatedPageNumbers st))"
    unfolding nth
    by (simp_all add: firstOut_simps secondOut_simps stampOf_def nums Let_def labelTexts_def)
  have counters: "fst (getSimulatedPageNumbers st) =
       (if enablePageNumbering options \<and> numberingStartFromPageIndex options \<le> p \<and>
           (numberingSide options = Both \<or> numberingSide options = First)
        then Some (pageNumberCounter (loopState font options pages p)) else None)"
      "snd (getSimulatedPageNumbers st) =
       (if enablePageNumbering options \<and> numberingStartFromPageIndex options \<le> p \<and>
           (numberingSide options = Both \<or> numberingSide options = Second)
        then Some (pageNumberCounter (loopState font options pages p) +
                   (if numberingSide options = Both then 1 else 0))
        else None)"
    unfolding fields st
    by (cases "numberingSide ?o";
        simp add: nums Let_def counter_loopState stampsFirst_def stampsSecond_def
          shouldAddNumberToThisA3Page_def)+
  from res axis ratio boxes texts counters show ?thesis by blast
qed


theorem preview_matches_splitter_witness:
  "sampleLoad [7, 7] = Some [\<lparr>sp_width = 1000, sp_height = 700\<rparr>, \<lparr>sp_width = 1000, sp_height = 700\<rparr>] \<and>
   handleProcessOptions sampleState = sampleOptions\<lparr>mergeToSingleFile := True\<rparr> \<and>
   currentPage sampleState = int 1 + 1 \<and> previewInfo sampleState = Some (1000, 700) \<and>
   getSimulatedPageNumbers sampleState = (Some 7, Some 8) \<and>
   (\<exists>out. snd (splitA3ToA4 sampleLoad (Some helvetica) [7, 7] sampleOptions) = Inr out \<and>
      isVerticalSplit sampleState = useVerticalSplit sampleOptions 1000 700 \<and>
      currentActiveRatio sampleState = currentRatio sampleOptions 1 \<and>
      map dt_text (op_drawn (out ! 2)) = [''7''] \<and>
      map dt_text (op_drawn (out ! 3)) = [''8''])"
proof -
  let ?pages = "[\<lparr>sp_width = 1000, sp_height = 700\<rparr>, \<lparr>sp_width = 1000, sp_height = 700\<rparr>]"
  have i: "(1::nat) < length ?pages" by simp
  have o: "handleProcessOptions sampleState = sampleOptions\<lparr>mergeToSingleFile := True\<rparr>"
    by (simp add: handleProcessOptions_def sampleState_def sampleOptions_def)
  have c: "currentPage sampleState = int 1 + 1"
    by (simp add: sampleState_def)
  have v: "previewInfo sampleState = Some (1000, 700)"
    by (simp add: sampleState_def)
  have w: "(1000::real) = sp_width (?pages ! 1)" and h: "(700::real) = sp_height (?pages ! 1)"
    by simp_all
  have g: "getSimulatedPageNumbers sampleState = (Some 7, Some 8)"
    by (simp add: getSimulatedPageNumbers_def sampleState_def Let_def)
  from preview_matches_splitter
         [where load = sampleLoad and pdfFile = "[7, 7]" and embedFont = "Some helvetica"
            and font = helvetica and options = sampleOptions and st = sampleState and p = 1,
          OF sample_pages refl i o c v w h]
  obtain out where
    r: "snd (splitA3ToA4 sampleLoad (Some helvetica) [7, 7] sampleOptions) = Inr out"
    and a: "isVerticalSplit sampleState = useVerticalSplit sampleOptions 1000 700"
    and b: "currentActiveRatio sampleState = currentRatio sampleOptions 1"
    and t1: "map dt_text (op_drawn (out ! (2 * 1))) = labelTexts (fst (getSimulatedPageNumbers sampleState))"
    and t2: "map dt_text (op_drawn (out ! (2 * 1 + 1))) = labelTexts (snd (getSimulatedPageNumbers sampleState))"
    apply -
    apply (erule exE)
    apply (elim conjE)
    apply (rule that)
    apply assumption+
    done
  from t1 have s1: "map dt_text (op_drawn (out ! 2)) = [''7'']"
    by (simp add: g labelTexts_def numberToString_def natToString.simps)
  from t2 have s2: "map dt_text (op_drawn (out ! 3)) = [''8'']"
    by (simp add: g labelTexts_def numberToString_def natToString.simps)
  from r a b s1 s2
  have ex: "\<exists>out. snd (splitA3ToA4 sampleLoad (Some helvetica) [7, 7] sampleOptions) = Inr out \<and>
      isVerticalSplit sampleState = useVerticalSplit sampleOptions 1000 700 \<and>
      currentActiveRatio sampleState = currentRatio sampleOptions 1 \<and>
      map dt_text (op_drawn (out ! 2)) = [''7''] \<and>
      map dt_text (op_drawn (out ! 3)) = [''8'']"
    by (intro exI [of _ out] conjI)
  from sample_pages o c v g ex show ?thesis by (intro conjI)
qed

section \<open>Where the page number is drawn\<close>

text \<open>
  In general: whatever the axis and the ratio, a stamp on either copy of source page
  \<open>i\<close> is centred at half the width of the whole page, with its baseline at 15.
\<close>

lemma stamp_position:
  assumes "i < length pages"
    and "t \<in> set (op_drawn (outPdf (loopState font options pages (length pages)) ! (2 * i))) \<union>
             set (op_drawn (outPdf (loopState font options pages (length pages)) ! (2 * i + 1)))"
  shows "textCentreX font t = sp_width (pages ! i) / 2 \<and> dt_y t = 15"
  using assms(2) outPdf_nth [OF assms(1), of font options pages]
  by (auto simp: firstOut_simps secondOut_simps stampOf_def textCentreX_def split: if_splits)

lemma sample_one_page_vertical:
  "pagesOf (splitA3ToA4 sampleLoad (Some helvetica) [7] sampleOptions) =
     [\<lparr>op_copiedFrom = Some 0, op_width = 1000, op_height = 700,
       op_cropBox = Some (0, 0, 500, 700),
       op_drawn = [\<lparr>dt_text = ''5'', dt_x = 500 - 278 / 100, dt_y = 15, dt_size = 10,
                    dt_color = (0.2, 0.2, 0.2)\<rparr>]\<rparr>,
      \<lparr>op_copiedFrom = Some 0, op_width = 1000, op_height = 700,
       op_cropBox = Some (500, 0, 500, 700),
       op_drawn = [\<lparr>dt_text = ''6'', dt_x = 500 - 278 / 100, dt_y = 15, dt_size = 10,
                    dt_color = (0.2, 0.2, 0.2)\<rparr>]\<rparr>]"
  by (simp add: pagesOf_def splitA3ToA4_def save_def sampleLoad_def loopState_def initialState_def
      loopBody_eq Let_def halfPage_def stampOf_def cropRects_def useVerticalSplit_def
      currentRatio_def isEvenPage_def stampsFirst_def stampsSecond_def
      shouldAddNumberToThisA3Page_def sampleOptions_def helvetica_def
      numberToString_def natToString.simps)

lemma sample_one_page_horizontal:
  "pagesOf (splitA3ToA4 sampleLoad (Some helvetica) [7] (sampleOptions\<lparr>orientation := Horizontal\<rparr>)) =
     [\<lparr>op_copiedFrom = Some 0, op_width = 1000, op_height = 700,
       op_cropBox = Some (0, 350, 1000, 350),
       op_drawn = [\<lparr>dt_text = ''5'', dt_x = 500 - 278 / 100, dt_y = 15, dt_size = 10,
                    dt_color = (0.2, 0.2, 0.2)\<rparr>]\<rparr>,
      \<lparr>op_copiedFrom = Some 0, op_width = 1000, op_height = 700,
       op_cropBox = Some (0, 0, 1000, 350),
       op_drawn = [\<lparr>dt_text = ''6'', dt_x = 500 - 278 / 100, dt_y = 15, dt_size = 10,
                    dt_color = (0.2, 0.2, 0.2)\<rparr>]\<rparr>]"
  by (simp add: pagesOf_def splitA3ToA4_def save_def sampleLoad_def loopState_def initialState_def
      loopBody_eq Let_def halfPage_def stampOf_def cropRects_def useVerticalSplit_def
      currentRatio_def isEvenPage_def stampsFirst_def stampsSecond_def
      shouldAddNumberToThisA3Page_def sampleOptions_def helvetica_def
      numberToString_def natToString.simps)

text \<open>
  Claim C7 says that every stamp is centred in its half and sits near the bottom of the
  visible region of its half. The code takes the width from \<open>getSize\<close>, which is the
  width of the whole page, and draws in page coordinates at height 15. One landscape
  page of 1000 by 700, split vertically at one half: both stamps are centred at
  \<open>x = 500\<close>, on the cut, while the two crop boxes are centred at 250 and at 750. The
  same page split horizontally: the first copy shows the heights from 350 to 700, and
  its stamp is drawn at height 15.
\<close>

theorem stamps_are_centred_on_the_whole_page:
  "map (\<lambda>pg. (map_option boxCentreX (op_cropBox pg), map (textCentreX helvetica) (op_drawn pg)))
     (pagesOf (splitA3ToA4 sampleLoad (Some helvetica) [7] sampleOptions)) =
     [(Some 250, [500]), (Some 750, [500])] \<and>
   map (\<lambda>pg. (op_cropBox pg, map dt_y (op_drawn pg)))
     (pagesOf (splitA3ToA4 sampleLoad (Some helvetica) [7]
        (sampleOptions\<lparr>orientation := Horizontal\<rparr>))) =
     [(Some (0, 350, 1000, 350), [15]), (Some (0, 0, 1000, 350), [15])]"
  by (simp add: sample_one_page_vertical sample_one_page_horizontal boxCentreX_def
      textCentreX_def helvetica_def)

end
